theory Spec2Isabelle
  imports Main "HOL-Library.AList"
begin

section \<open>Python values\<close>

text \<open>
  The values that flow through the agent are the values \<^verbatim>\<open>json.loads\<close> produces and
  \<^verbatim>\<open>json.dumps\<close> accepts. A Python \<^verbatim>\<open>dict\<close> is an association list in insertion
  order; \<^verbatim>\<open>d.get(k)\<close> is \<^const>\<open>map_of\<close>. Floats are carried and never inspected by
  the code.
\<close>

datatype pyfloat = Finite int int | Infinity bool | NaN

datatype json =
    JNull
  | JBool bool
  | JInt int
  | JFloat pyfloat
  | JStr string
  | JArr "json list"
  | JObj "(string \<times> json) list"

type_synonym pydict = "(string \<times> json) list"

text \<open>\<^verbatim>\<open>type(v).__name__\<close>\<close>

definition type_name :: "json \<Rightarrow> string" where
  "type_name v =
     (case v of
        JNull \<Rightarrow> ''NoneType''
      | JBool _ \<Rightarrow> ''bool''
      | JInt _ \<Rightarrow> ''int''
      | JFloat _ \<Rightarrow> ''float''
      | JStr _ \<Rightarrow> ''str''
      | JArr _ \<Rightarrow> ''list''
      | JObj _ \<Rightarrow> ''dict'')"

text \<open>
  The exceptions that leave \<^verbatim>\<open>AgentExecutor.run\<close>. \<open>AttributeError t a\<close>: an object of
  type \<open>t\<close> has no attribute \<open>a\<close>. \<open>ServiceError\<close> stands for whatever the model transport
  raises.
\<close>

datatype exn =
    KeyError string
  | AttributeError string string
  | TypeError string
  | JSONDecodeError string
  | ServiceError string

definition quoted :: "string \<Rightarrow> string" where
  "quoted s = [CHR 0x27] @ s @ [CHR 0x27]"

text \<open>\<^verbatim>\<open>sep.join(xs)\<close>\<close>

fun join :: "string \<Rightarrow> string list \<Rightarrow> string" where
  "join sep [] = []"
| "join sep [x] = x"
| "join sep (x # y # ys) = x @ sep @ join sep (y # ys)"

text \<open>
  Iterating a value in a \<^verbatim>\<open>for\<close> loop: a list yields its items, a dict its keys, a string
  its characters; anything else is not iterable.
\<close>

definition py_iter :: "json \<Rightarrow> exn + json list" where
  "py_iter v =
     (case v of
        JArr xs \<Rightarrow> Inr xs
      | JObj kvs \<Rightarrow> Inr (map (\<lambda>kv. JStr (fst kv)) kvs)
      | JStr s \<Rightarrow> Inr (map (\<lambda>c. JStr [c]) s)
      | _ \<Rightarrow> Inl (TypeError (quoted (type_name v) @ '' object is not iterable'')))"

section \<open>Tools and the registry (utils.py)\<close>

text \<open>
  A tool is an arbitrary Python callable. Calling it with keyword arguments reads and changes
  the outside world \<open>'w\<close> (network, database, clock) and either returns a value or raises an
  \<^verbatim>\<open>Exception\<close> \<open>e\<close>, of which only \<^verbatim>\<open>str(e)\<close> is observed. Returned values are JSON
  values, as the tools of tools.py return. \<open>funcstr\<close> is how the interpreter names the
  callable in its own error messages. What a registry entry stores under \<^verbatim>\<open>"function"\<close>
  need not be callable at all.
\<close>

datatype outcome = Returns json | Raises string

record 'w pyfunction =
  invoke :: "pydict \<Rightarrow> 'w \<Rightarrow> outcome \<times> 'w"
  funcstr :: string

datatype 'w pyobj = Callable "'w pyfunction" | NotCallable json

record 'w tool_entry =
  entry_function :: "'w pyobj"
  entry_description :: json
  entry_parameters :: json

record 'w ToolRegistry =
  tools :: "(string \<times> 'w tool_entry) list"

definition ToolRegistry_init :: "'w ToolRegistry" where
  "ToolRegistry_init = \<lparr>tools = []\<rparr>"

text \<open>
  \<^verbatim>\<open>self.tools[name] = {...}\<close>: an existing key keeps its position and gets the new
  entry, a new key goes to the end.
\<close>

definition register ::
  "'w ToolRegistry \<Rightarrow> string \<Rightarrow> 'w pyobj \<Rightarrow> json \<Rightarrow> json \<Rightarrow> 'w ToolRegistry" where
  "register self name func description parameters =
     self\<lparr>tools :=
       AList.update name
         \<lparr>entry_function = func, entry_description = description,
          entry_parameters = parameters\<rparr>
         (tools self)\<rparr>"

definition get_description_for_prompt :: "'w ToolRegistry \<Rightarrow> pydict" where
  "get_description_for_prompt self =
     map (\<lambda>(name, entry).
            (name, JObj [(''description'', entry_description entry),
                         (''parameters'', entry_parameters entry)]))
         (tools self)"

text \<open>
  \<^verbatim>\<open>self.tools.get(name, {}).get("function")\<close>. The name comes from the model's output
  and may be any JSON value: a list or dict is unhashable and the lookup raises; any other
  non-string is hashable and simply is no key of the registry. A miss yields \<^verbatim>\<open>None\<close>.
\<close>

definition get_callable :: "'w ToolRegistry \<Rightarrow> json \<Rightarrow> exn + 'w pyobj" where
  "get_callable self name =
     (case name of
        JStr s \<Rightarrow>
          (case map_of (tools self) s of
             None \<Rightarrow> Inr (NotCallable JNull)
           | Some entry \<Rightarrow> Inr (entry_function entry))
      | JArr _ \<Rightarrow> Inl (TypeError (''unhashable type: '' @ quoted (type_name name)))
      | JObj _ \<Rightarrow> Inl (TypeError (''unhashable type: '' @ quoted (type_name name)))
      | _ \<Rightarrow> Inr (NotCallable JNull))"

section \<open>The model transport and the standard library\<close>

datatype message = SystemMessage string | UserMessage string | AssistantMessage string

datatype response_format = ResponseFormatJsonSchema string string json | ResponseFormatText

record LLM =
  llm_name :: string
  llm_version :: string
  llm_parameters :: json

record Template =
  template_messages :: "message list"
  template_response_format :: response_format

record OrchestrationConfig =
  config_template :: Template
  config_llm :: LLM

text \<open>
  What main.py calls and does not define: \<^verbatim>\<open>json.loads\<close>, \<^verbatim>\<open>json.dumps\<close> (plain and with
  \<^verbatim>\<open>indent\<close>), \<^verbatim>\<open>str\<close> of a non-string value inside an f-string, and
  \<^verbatim>\<open>OrchestrationService(config).run()\<close> followed by the extraction of the first choice's
  message content, which changes the world and returns the text or raises.
\<close>

record 'w externals =
  json_loads :: "string \<Rightarrow> exn + json"
  json_dumps :: "json \<Rightarrow> string"
  json_dumps_indent :: "nat \<Rightarrow> json \<Rightarrow> string"
  py_str :: "json \<Rightarrow> string"
  orchestration_run :: "OrchestrationConfig \<Rightarrow> 'w \<Rightarrow> (exn + string) \<times> 'w"

text \<open>\<^verbatim>\<open>f"{v}"\<close>\<close>

definition format_value :: "'w externals \<Rightarrow> json \<Rightarrow> string" where
  "format_value ext v = (case v of JStr s \<Rightarrow> s | _ \<Rightarrow> py_str ext v)"

section \<open>The agent (main.py)\<close>

record 'w AgentExecutor =
  llm :: LLM
  tool_registry :: "'w ToolRegistry"
  verbose :: bool

definition build_dynamic_schema :: json where
  "build_dynamic_schema =
     JObj [
       (''title'', JStr ''ToolCalls''),
       (''type'', JStr ''object''),
       (''properties'', JObj [
         (''tool_calls'', JObj [
           (''type'', JStr ''array''),
           (''items'', JObj [
             (''type'', JStr ''object''),
             (''properties'', JObj [
               (''decision'', JObj [(''type'', JStr ''string'')]),
               (''reason'', JObj [(''type'', JStr ''string'')]),
               (''function'', JObj [(''type'', JStr ''string'')]),
               (''parameters'', JObj [(''type'', JStr ''object'')])]),
             (''required'', JArr [JStr ''decision'', JStr ''reason'', JStr ''function'',
                                  JStr ''parameters''])])])]),
       (''required'', JArr [JStr ''tool_calls''])]"

definition instruction_head :: string where
  \<open>instruction_head =
     ''\<newline>'' @
     ''                You are an intelligent AI assistant capable of deciding whether to invoke tools based on the user's request.\<newline>'' @
     ''\<newline>'' @
     ''                Available tools:\<newline>'' @
     ''                ''\<close>

definition instruction_tail :: string where
  \<open>instruction_tail =
     ''\<newline>'' @
     ''\<newline>'' @
     ''                Instructions:\<newline>'' @
     ''                - For each relevant tool, return a JSON entry with the function name and parameters.\<newline>'' @
     ''                - If no tool is relevant, return an entry with decision = "no_tool".\<newline>'' @
     ''\<newline>'' @
     ''                Return ONLY valid JSON like:\<newline>'' @
     ''                {\<newline>'' @
     ''                "tool_calls": [\<newline>'' @
     ''                    {\<newline>'' @
     ''                    "decision": "tool",\<newline>'' @
     ''                    "reason": "The user asked for weather.",\<newline>'' @
     ''                    "function": "get_weather",\<newline>'' @
     ''                    "parameters": {\<newline>'' @
     ''                        "latitude": 48.8566,\<newline>'' @
     ''                        "longitude": 2.3522\<newline>'' @
     ''                    }\<newline>'' @
     ''                    },\<newline>'' @
     ''                    {\<newline>'' @
     ''                    "decision": "tool",\<newline>'' @
     ''                    "reason": "The user asked for time.",\<newline>'' @
     ''                    "function": "get_time_now",\<newline>'' @
     ''                    "parameters": {}\<newline>'' @
     ''                    }\<newline>'' @
     ''                ]\<newline>'' @
     ''                }\<newline>'' @
     ''                ''\<close>

definition generate_instruction :: "'w externals \<Rightarrow> 'w AgentExecutor \<Rightarrow> string" where
  "generate_instruction ext self =
     (let description =
            json_dumps_indent ext 2 (JObj (get_description_for_prompt (tool_registry self)))
      in instruction_head @ description @ instruction_tail)"

text \<open>
  The call expression \<^verbatim>\<open>func(**args)\<close>. A mapping is unpacked into keyword arguments
  and the callable is entered once; anything else makes the interpreter raise a
  \<^verbatim>\<open>TypeError\<close> without entering it. The third component lists the keyword arguments
  of each entry into the callable.
\<close>

definition py_call :: "'w pyfunction \<Rightarrow> json \<Rightarrow> 'w \<Rightarrow> outcome \<times> 'w \<times> pydict list" where
  "py_call func args w =
     (case args of
        JObj kwargs \<Rightarrow> (case invoke func kwargs w of (r, w') \<Rightarrow> (r, w', [kwargs]))
      | _ \<Rightarrow>
          (Raises (funcstr func @ '' argument after ** must be a mapping, not '' @
                   type_name args), w, []))"

text \<open>
  \<^verbatim>\<open>_execute_tool\<close>. Besides the result it returns the new world and the calls it made:
  the looked-up name with the keyword arguments, for each entry into a callable.
  \<^verbatim>\<open>decision["function"]\<close> raises on a missing key and the lookup in the registry may
  raise; both happen before the \<^verbatim>\<open>try\<close>. With \<^verbatim>\<open>verbose\<close> the method also prints to
  standard output, which nothing reads back.
\<close>

type_synonym call = "json \<times> pydict"

definition execute_tool ::
  "'w externals \<Rightarrow> 'w AgentExecutor \<Rightarrow> pydict \<Rightarrow> 'w \<Rightarrow> (exn + json) \<times> 'w \<times> call list" where
  "execute_tool ext self decision w =
     (case map_of decision ''function'' of
        None \<Rightarrow> (Inl (KeyError ''function''), w, [])
      | Some func_name \<Rightarrow>
          (let args = (case map_of decision ''parameters'' of None \<Rightarrow> JObj [] | Some a \<Rightarrow> a)
           in case get_callable (tool_registry self) func_name of
                Inl e \<Rightarrow> (Inl e, w, [])
              | Inr (Callable func) \<Rightarrow>
                  (case py_call func args w of
                     (Returns result, w', ks) \<Rightarrow> (Inr result, w', map (Pair func_name) ks)
                   | (Raises m, w', ks) \<Rightarrow>
                       (Inr (JStr (''Error: '' @ m)), w', map (Pair func_name) ks))
              | Inr (NotCallable _) \<Rightarrow>
                  (Inr (JStr (''Function '' @ quoted (format_value ext func_name) @
                              '' not found.'')), w, [])))"

text \<open>
  The state of the loop in \<^verbatim>\<open>run\<close>: the two lists it appends to, the calls made so far
  and the world.
\<close>

record 'w run_state =
  tool_results :: "(json \<times> json) list"
  messages :: "message list"
  calls :: "call list"
  world :: 'w

text \<open>
  One iteration of the loop body. \<^verbatim>\<open>decision.get\<close> exists only on a dict. The first
  component is the exception that leaves the loop, if any.
\<close>

definition process_decision ::
  "'w externals \<Rightarrow> 'w AgentExecutor \<Rightarrow> json \<Rightarrow> 'w run_state \<Rightarrow> exn option \<times> 'w run_state" where
  "process_decision ext self decision st =
     (case decision of
        JObj d \<Rightarrow>
          if map_of d ''decision'' = Some (JStr ''tool'') then
            (case execute_tool ext self d (world st) of
               (Inl e, w', cs) \<Rightarrow> (Some e, st\<lparr>calls := calls st @ cs, world := w'\<rparr>)
             | (Inr tool_response, w', cs) \<Rightarrow>
                 (case map_of d ''function'' of
                    None \<Rightarrow>
                      (Some (KeyError ''function''), st\<lparr>calls := calls st @ cs, world := w'\<rparr>)
                  | Some func_name \<Rightarrow>
                      (None,
                       st\<lparr>tool_results := tool_results st @ [(func_name, tool_response)],
                          messages := messages st @ [AssistantMessage (json_dumps ext decision)],
                          calls := calls st @ cs,
                          world := w'\<rparr>)))
          else
            (None, st\<lparr>messages := messages st @ [AssistantMessage (json_dumps ext decision)]\<rparr>)
      | _ \<Rightarrow> (Some (AttributeError (type_name decision) ''get''), st))"

fun execute_decisions ::
  "'w externals \<Rightarrow> 'w AgentExecutor \<Rightarrow> json list \<Rightarrow> 'w run_state \<Rightarrow> exn option \<times> 'w run_state" where
  "execute_decisions ext self [] st = (None, st)"
| "execute_decisions ext self (decision # rest) st =
     (case process_decision ext self decision st of
        (Some e, st') \<Rightarrow> (Some e, st')
      | (None, st') \<Rightarrow> execute_decisions ext self rest st')"

text \<open>\<^verbatim>\<open>decisions_json.get("tool_calls", [])\<close>, as the \<^verbatim>\<open>for\<close> loop iterates it.\<close>

definition get_tool_calls :: "json \<Rightarrow> exn + json list" where
  "get_tool_calls decisions_json =
     (case decisions_json of
        JObj obj \<Rightarrow> (case map_of obj ''tool_calls'' of None \<Rightarrow> Inr [] | Some v \<Rightarrow> py_iter v)
      | _ \<Rightarrow> Inl (AttributeError (type_name decisions_json) ''get''))"

definition synthesis_instruction :: string where
  \<open>synthesis_instruction =
     '' \<newline>'' @
     ''            You now have access to the results provided by the tools. When the results are clear and complete, use only that information to answer the user's \<newline>'' @
     ''            question in a natural, helpful, and concise manner. However, if any result appears vague, incomplete, or states uncertainty (e.g., "I don't know"), \<newline>'' @
     ''            rely on your own knowledge to deliver an accurate and informative response.\<newline>'' @
     ''            Always avoid requesting information already provided. Focus on clarity, relevance, and user value.\<newline>'' @
     ''\<newline>'' @
     ''            ''\<close>

definition tool_line :: "'w externals \<Rightarrow> json \<times> json \<Rightarrow> string" where
  "tool_line ext nr =
     (case nr of (name, result) \<Rightarrow>
        ''- Tool `'' @ format_value ext name @ ''` returned: '' @ json_dumps ext result)"

definition finalize_response ::
  "'w externals \<Rightarrow> 'w AgentExecutor \<Rightarrow> string \<Rightarrow> (json \<times> json) list \<Rightarrow> message list \<Rightarrow> 'w
     \<Rightarrow> (exn + string) \<times> 'w" where
  "finalize_response ext self original_query results msgs w =
     (let messages1 = msgs @ [SystemMessage synthesis_instruction];
          messages2 = messages1 @ [UserMessage (''User question: '' @ original_query)];
          tool_summary = join ''\<newline>'' (map (tool_line ext) results);
          messages3 = messages2 @ [UserMessage (''Tool Results:\<newline>'' @ tool_summary)];
          template = \<lparr>template_messages = messages3,
                      template_response_format = ResponseFormatText\<rparr>;
          config = \<lparr>config_template = template, config_llm = llm self\<rparr>
      in orchestration_run ext config w)"

definition decision_config :: "'w externals \<Rightarrow> 'w AgentExecutor \<Rightarrow> string \<Rightarrow> OrchestrationConfig" where
  "decision_config ext self user_query =
     (let system_message = SystemMessage (generate_instruction ext self);
          prompt = UserMessage user_query;
          msgs = [system_message, prompt];
          template = \<lparr>template_messages = msgs,
                      template_response_format =
                        ResponseFormatJsonSchema ''ToolCall'' ''Tool execution format''
                          build_dynamic_schema\<rparr>
      in \<lparr>config_template = template, config_llm = llm self\<rparr>)"

definition initial_state :: "'w externals \<Rightarrow> 'w AgentExecutor \<Rightarrow> string \<Rightarrow> 'w \<Rightarrow> 'w run_state" where
  "initial_state ext self user_query w =
     \<lparr>tool_results = [],
      messages = [SystemMessage (generate_instruction ext self), UserMessage user_query],
      calls = [],
      world = w\<rparr>"

definition run ::
  "'w externals \<Rightarrow> 'w AgentExecutor \<Rightarrow> string \<Rightarrow> 'w \<Rightarrow> (exn + string) \<times> 'w" where
  "run ext self user_query w =
     (case orchestration_run ext (decision_config ext self user_query) w of
        (Inl e, w1) \<Rightarrow> (Inl e, w1)
      | (Inr content, w1) \<Rightarrow>
          (case json_loads ext content of
             Inl e \<Rightarrow> (Inl e, w1)
           | Inr decisions_json \<Rightarrow>
               (case get_tool_calls decisions_json of
                  Inl e \<Rightarrow> (Inl e, w1)
                | Inr decisions \<Rightarrow>
                    (case execute_decisions ext self decisions
                            (initial_state ext self user_query w1) of
                       (Some e, st) \<Rightarrow> (Inl e, world st)
                     | (None, st) \<Rightarrow>
                         finalize_response ext self user_query
                           (tool_results st) (messages st) (world st)))))"

section \<open>Vocabulary of the properties\<close>

text \<open>
  A decision asks for a tool when it is a dict whose \<^verbatim>\<open>"decision"\<close> entry equals
  \<^verbatim>\<open>"tool"\<close>, the test of the loop in \<^verbatim>\<open>run\<close>.
\<close>

definition wants_tool :: "json \<Rightarrow> bool" where
  "wants_tool decision =
     (case decision of JObj d \<Rightarrow> map_of d ''decision'' = Some (JStr ''tool'') | _ \<Rightarrow> False)"

text \<open>The \<^verbatim>\<open>"function"\<close> entry of a decision, if it has one.\<close>

definition decision_function :: "json \<Rightarrow> json option" where
  "decision_function decision =
     (case decision of JObj d \<Rightarrow> map_of d ''function'' | _ \<Rightarrow> None)"

text \<open>\<^verbatim>\<open>decision.get("parameters", {})\<close>\<close>

definition decision_args :: "pydict \<Rightarrow> json" where
  "decision_args d = (case map_of d ''parameters'' of None \<Rightarrow> JObj [] | Some a \<Rightarrow> a)"

text \<open>
  The call a decision leads to: it asks for a tool, its function is registered with a
  callable, and its arguments are a mapping.
\<close>

definition invocation :: "'w AgentExecutor \<Rightarrow> json \<Rightarrow> call option" where
  "invocation self decision =
     (case decision of
        JObj d \<Rightarrow>
          if map_of d ''decision'' = Some (JStr ''tool'') then
            (case map_of d ''function'' of
               None \<Rightarrow> None
             | Some func_name \<Rightarrow>
                 (case get_callable (tool_registry self) func_name of
                    Inr (Callable func) \<Rightarrow>
                      (case decision_args d of
                         JObj kwargs \<Rightarrow> Some (func_name, kwargs)
                       | _ \<Rightarrow> None)
                  | _ \<Rightarrow> None))
          else None
      | _ \<Rightarrow> None)"

text \<open>
  Conformance to the schema of \<^verbatim>\<open>_build_dynamic_schema\<close>: an object with a required
  array \<^verbatim>\<open>tool_calls\<close> whose items are objects with the required entries
  \<^verbatim>\<open>decision\<close>, \<^verbatim>\<open>reason\<close>, \<^verbatim>\<open>function\<close> (strings) and \<^verbatim>\<open>parameters\<close> (an object).
\<close>

definition entry_conforms :: "json \<Rightarrow> bool" where
  "entry_conforms decision =
     (case decision of
        JObj d \<Rightarrow>
          (case map_of d ''decision'' of Some (JStr _) \<Rightarrow> True | _ \<Rightarrow> False) \<and>
          (case map_of d ''reason'' of Some (JStr _) \<Rightarrow> True | _ \<Rightarrow> False) \<and>
          (case map_of d ''function'' of Some (JStr _) \<Rightarrow> True | _ \<Rightarrow> False) \<and>
          (case map_of d ''parameters'' of Some (JObj _) \<Rightarrow> True | _ \<Rightarrow> False)
      | _ \<Rightarrow> False)"

definition conforms_schema :: "json \<Rightarrow> bool" where
  "conforms_schema decisions_json =
     (case decisions_json of
        JObj obj \<Rightarrow>
          (case map_of obj ''tool_calls'' of
             Some (JArr ds) \<Rightarrow> list_all entry_conforms ds
           | _ \<Rightarrow> False)
      | _ \<Rightarrow> False)"

section \<open>A concrete setting\<close>

text \<open>
  The registry that main.py builds, with stand-ins for the three tools of tools.py. The
  world counts the interactions with the outside. The clock answers when called without
  arguments; the weather service answers when given both coordinates; the retriever's
  database connection uses the placeholder host of tools.py and fails.
\<close>

definition get_time_now :: "nat pyfunction" where
  "get_time_now =
     \<lparr>invoke = (\<lambda>kwargs w.
         if kwargs = [] then (Returns (JObj [(''time'', JStr ''2025-06-01 12:00:00'')]), Suc w)
         else (Raises ''get_time_now() got an unexpected keyword argument'', w)),
      funcstr = ''tools.get_time_now()''\<rparr>"

definition get_weather :: "nat pyfunction" where
  "get_weather =
     \<lparr>invoke = (\<lambda>kwargs w.
         case (map_of kwargs ''latitude'', map_of kwargs ''longitude'') of
           (Some _, Some _) \<Rightarrow> (Returns (JObj [(''temperature_2m'', JInt 21)]), Suc w)
         | _ \<Rightarrow> (Raises ''get_weather() missing required positional arguments'', w)),
      funcstr = ''tools.get_weather()''\<rparr>"

definition retriever :: "nat pyfunction" where
  "retriever =
     \<lparr>invoke = (\<lambda>kwargs w. (Raises ''Connection failed'', Suc w)),
      funcstr = ''tools.retriever()''\<rparr>"

definition registry :: "nat ToolRegistry" where
  "registry =
     register
       (register
          (register ToolRegistry_init ''get_weather'' (Callable get_weather)
             (JStr ''Retrieves current weather data for a given set of geographic coordinates (latitude, longitude).'')
             (JObj [(''latitude'', JStr ''float - The latitude of the location.''),
                    (''longitude'', JStr ''float - The longitude of the location.'')]))
          ''get_time_now'' (Callable get_time_now)
          (JStr ''Returns the current local time in YYYY-MM-DD HH:MM:SS format.'')
          (JObj []))
       ''retriever'' (Callable retriever)
       (JStr ''Retrieves an answer using RAG from documents stored in SAP HANA Cloud for SAP Business Data Cloud and SAP Generative AI Hub in SAP AI Core content'')
       (JObj [(''question'', JStr ''string - The question you want to ask based on the document context.'')])"

text \<open>A registry in which a name was registered with a value that is no callable.\<close>

definition registry_with_string :: "nat ToolRegistry" where
  "registry_with_string =
     register registry ''get_time_now'' (NotCallable (JStr ''get_time_now''))
       (JStr ''Returns the current local time in YYYY-MM-DD HH:MM:SS format.'') (JObj [])"

definition agent :: "nat AgentExecutor" where
  "agent =
     \<lparr>llm = \<lparr>llm_name = ''gpt-4o'', llm_version = ''latest'',
              llm_parameters = JObj [(''max_tokens'', JInt 2000),
                                     (''temperature'', JFloat (Finite 3602879701896397 (-54)))]\<rparr>,
      tool_registry = registry,
      verbose = True\<rparr>"

text \<open>
  A model transport that answers the decision request with \<open>content\<close> and the synthesis
  request with a fixed text, and a \<^verbatim>\<open>json.loads\<close> of which only the value at \<open>content\<close>
  matters. The serialisers are placeholders.
\<close>

definition transport :: "string \<Rightarrow> exn + json \<Rightarrow> nat externals" where
  "transport content parsed =
     \<lparr>json_loads = (\<lambda>s. if s = content then parsed else Inl (JSONDecodeError ''Expecting value'')),
      json_dumps = (\<lambda>v. ''<'' @ type_name v @ ''>''),
      json_dumps_indent = (\<lambda>n v. ''<'' @ type_name v @ ''>''),
      py_str = (\<lambda>v. ''<'' @ type_name v @ ''>''),
      orchestration_run = (\<lambda>config w.
         case template_response_format (config_template config) of
           ResponseFormatJsonSchema _ _ _ \<Rightarrow> (Inr content, Suc w)
         | ResponseFormatText \<Rightarrow> (Inr ''It is noon.'', Suc w))\<rparr>"

text \<open>Decisions as the model may return them.\<close>

definition decision_time :: pydict where
  "decision_time =
     [(''decision'', JStr ''tool''), (''reason'', JStr ''The user asked for time.''),
      (''function'', JStr ''get_time_now''), (''parameters'', JObj [])]"

definition decision_time_bare :: pydict where
  "decision_time_bare =
     [(''decision'', JStr ''tool''), (''reason'', JStr ''The user asked for time.''),
      (''function'', JStr ''get_time_now'')]"

definition decision_stock :: pydict where
  "decision_stock =
     [(''decision'', JStr ''tool''), (''reason'', JStr ''The user asked for a share price.''),
      (''function'', JStr ''get_stock_price''), (''parameters'', JObj [(''ticker'', JStr ''SAP'')])]"

definition decision_retriever :: pydict where
  "decision_retriever =
     [(''decision'', JStr ''tool''), (''reason'', JStr ''The user asked about the documents.''),
      (''function'', JStr ''retriever''),
      (''parameters'', JObj [(''question'', JStr ''What is SAP Business Data Cloud?'')])]"

definition decision_nameless :: pydict where
  "decision_nameless =
     [(''decision'', JStr ''tool''), (''reason'', JStr ''The user asked for time.''),
      (''parameters'', JObj [])]"

definition decision_none :: pydict where
  "decision_none =
     [(''decision'', JStr ''no_tool''), (''reason'', JStr ''No tool is relevant.''),
      (''function'', JStr []), (''parameters'', JObj [])]"

text \<open>The texts of the model's replies, and what \<^verbatim>\<open>json.loads\<close> makes of them.\<close>

definition reply :: "pydict list \<Rightarrow> json" where
  "reply ds = JObj [(''tool_calls'', JArr (map JObj ds))]"

definition content_stock :: string where
  \<open>content_stock =
     ''{"tool_calls": [{"decision": "tool", "reason": "The user asked for a share price.", '' @
     ''"function": "get_stock_price", "parameters": {"ticker": "SAP"}}]}''\<close>

definition content_nameless :: string where
  \<open>content_nameless =
     ''{"tool_calls": ['' @
     ''{"decision": "tool", "reason": "The user asked for time.", "function": "get_time_now", "parameters": {}}, '' @
     ''{"decision": "tool", "reason": "The user asked for time.", "parameters": {}}, '' @
     ''{"decision": "no_tool", "reason": "No tool is relevant.", "function": "", "parameters": {}}]}''\<close>

definition transport_nameless :: "nat externals" where
  "transport_nameless =
     transport content_nameless (Inr (reply [decision_time, decision_nameless, decision_none]))"

definition content_mixed :: string where
  \<open>content_mixed =
     ''{"tool_calls": ['' @
     ''{"decision": "tool", "reason": "The user asked for time.", "function": "get_time_now", "parameters": {}}, '' @
     ''{"decision": "no_tool", "reason": "No tool is relevant.", "function": "", "parameters": {}}, '' @
     ''{"decision": "tool", "reason": "The user asked about the documents.", "function": "retriever", '' @
     ''"parameters": {"question": "What is SAP Business Data Cloud?"}}]}''\<close>

definition transport_mixed :: "nat externals" where
  "transport_mixed =
     transport content_mixed (Inr (reply [decision_time, decision_none, decision_retriever]))"

definition content_none :: string where
  \<open>content_none =
     ''{"tool_calls": [{"decision": "no_tool", "reason": "No tool is relevant.", '' @
     ''"function": "", "parameters": {}}]}''\<close>

text \<open>Replies that are no list of decisions: an empty object, a list, and prose.\<close>

definition transport_empty :: "nat externals" where
  "transport_empty = transport ''{}'' (Inr (JObj []))"

definition transport_list :: "nat externals" where
  "transport_list = transport ''[]'' (Inr (JArr []))"

definition transport_prose :: "nat externals" where
  "transport_prose =
     transport ''I will call get_time_now.'' (Inl (JSONDecodeError ''Expecting value''))"

text \<open>
  A transport that answers the synthesis request with a transcript of the messages it was
  sent, so that the request shows in the run's result.
\<close>

fun render :: "message \<Rightarrow> string" where
  "render (SystemMessage s) = ''system: '' @ s"
| "render (UserMessage s) = ''user: '' @ s"
| "render (AssistantMessage s) = ''assistant: '' @ s"

definition transcript :: "message list \<Rightarrow> string" where
  "transcript msgs = concat (map (\<lambda>m. render m @ ''\<newline>'') msgs)"

definition transport_echo :: "string \<Rightarrow> exn + json \<Rightarrow> nat externals" where
  "transport_echo content parsed =
     \<lparr>json_loads = (\<lambda>s. if s = content then parsed else Inl (JSONDecodeError ''Expecting value'')),
      json_dumps = (\<lambda>v. ''<'' @ type_name v @ ''>''),
      json_dumps_indent = (\<lambda>n v. ''<'' @ type_name v @ ''>''),
      py_str = (\<lambda>v. ''<'' @ type_name v @ ''>''),
      orchestration_run = (\<lambda>config w.
         case template_response_format (config_template config) of
           ResponseFormatJsonSchema _ _ _ \<Rightarrow> (Inr content, Suc w)
         | ResponseFormatText \<Rightarrow>
             (Inr (transcript (template_messages (config_template config))), Suc w))\<rparr>"

definition echo_mixed :: "nat externals" where
  "echo_mixed =
     transport_echo content_mixed (Inr (reply [decision_time, decision_none, decision_retriever]))"

definition echo_none :: "nat externals" where
  "echo_none = transport_echo content_none (Inr (reply [decision_none]))"

definition echo_stock :: "nat externals" where
  "echo_stock = transport_echo content_stock (Inr (reply [decision_stock]))"

section \<open>The loop, step by step\<close>

lemma execute_decisions_append:
  "execute_decisions ext self (xs @ ys) st =
     (case execute_decisions ext self xs st of
        (Some e, st') \<Rightarrow> (Some e, st')
      | (None, st') \<Rightarrow> execute_decisions ext self ys st')"
  by (induction xs arbitrary: st) (auto split: prod.splits option.splits)

lemma py_call_entries:
  "py_call func args w = (r, w', ks) \<Longrightarrow>
   ks = (case args of JObj kwargs \<Rightarrow> [kwargs] | _ \<Rightarrow> [])"
  by (cases args) (auto simp: py_call_def split: prod.splits)

lemma execute_tool_cases:
  obtains
    (no_key) "map_of d ''function'' = None"
      "execute_tool ext self d w = (Inl (KeyError ''function''), w, [])"
  | (lookup_raises) func_name e where "map_of d ''function'' = Some func_name"
      "get_callable (tool_registry self) func_name = Inl e"
      "execute_tool ext self d w = (Inl e, w, [])"
  | (not_callable) func_name v where "map_of d ''function'' = Some func_name"
      "get_callable (tool_registry self) func_name = Inr (NotCallable v)"
      "execute_tool ext self d w =
         (Inr (JStr (''Function '' @ quoted (format_value ext func_name) @ '' not found.'')), w, [])"
  | (called) func_name func r w' ks where "map_of d ''function'' = Some func_name"
      "get_callable (tool_registry self) func_name = Inr (Callable func)"
      "py_call func (decision_args d) w = (r, w', ks)"
      "execute_tool ext self d w =
         (Inr (case r of Returns result \<Rightarrow> result | Raises m \<Rightarrow> JStr (''Error: '' @ m)),
          w', map (Pair func_name) ks)"
proof (cases "map_of d ''function''")
  case None
  then show ?thesis using no_key by (simp add: execute_tool_def)
next
  case (Some func_name)
  show ?thesis
  proof (cases "get_callable (tool_registry self) func_name")
    case (Inl e)
    with Some show ?thesis using lookup_raises by (simp add: execute_tool_def)
  next
    case (Inr obj)
    show ?thesis
    proof (cases obj)
      case (NotCallable v)
      with Some Inr show ?thesis using not_callable by (simp add: execute_tool_def)
    next
      case (Callable func)
      obtain r w' ks where c: "py_call func (decision_args d) w = (r, w', ks)"
        by (cases "py_call func (decision_args d) w") auto
      with Some Inr Callable show ?thesis using called [of func_name func r w' ks]
        by (cases r) (simp_all add: execute_tool_def decision_args_def)
    qed
  qed
qed

lemma invocation_tool:
  "map_of d ''decision'' = Some (JStr ''tool'') \<Longrightarrow> map_of d ''function'' = Some func_name \<Longrightarrow>
   invocation self (JObj d) =
     (case get_callable (tool_registry self) func_name of
        Inr (Callable func) \<Rightarrow>
          (case decision_args d of JObj kwargs \<Rightarrow> Some (func_name, kwargs) | _ \<Rightarrow> None)
      | _ \<Rightarrow> None)"
  by (simp add: invocation_def)

lemma process_decision_not_dict:
  "\<forall>d. decision \<noteq> JObj d \<Longrightarrow>
   process_decision ext self decision st = (Some (AttributeError (type_name decision) ''get''), st)"
  by (cases decision) (simp_all add: process_decision_def)

lemma process_decision_no_tool:
  "map_of d ''decision'' \<noteq> Some (JStr ''tool'') \<Longrightarrow>
   process_decision ext self (JObj d) st =
     (None, st\<lparr>messages := messages st @ [AssistantMessage (json_dumps ext (JObj d))]\<rparr>)"
  by (simp add: process_decision_def)

lemma process_decision_tool:
  "map_of d ''decision'' = Some (JStr ''tool'') \<Longrightarrow>
   process_decision ext self (JObj d) st =
     (case execute_tool ext self d (world st) of
        (Inl e, w', cs) \<Rightarrow> (Some e, st\<lparr>calls := calls st @ cs, world := w'\<rparr>)
      | (Inr tool_response, w', cs) \<Rightarrow>
          (case map_of d ''function'' of
             None \<Rightarrow> (Some (KeyError ''function''), st\<lparr>calls := calls st @ cs, world := w'\<rparr>)
           | Some func_name \<Rightarrow>
               (None,
                st\<lparr>tool_results := tool_results st @ [(func_name, tool_response)],
                   messages := messages st @ [AssistantMessage (json_dumps ext (JObj d))],
                   calls := calls st @ cs,
                   world := w'\<rparr>)))"
  by (simp add: process_decision_def)

lemma process_decision_effects:
  assumes "process_decision ext self decision st = (r, st')"
  shows "messages st' =
           messages st @ (if r = None then [AssistantMessage (json_dumps ext decision)] else [])"
    and "calls st' =
           calls st @ (if r = None then (case invocation self decision of None \<Rightarrow> [] | Some c \<Rightarrow> [c]) else [])"
    and "map (\<lambda>nr. Some (fst nr)) (tool_results st') =
           map (\<lambda>nr. Some (fst nr)) (tool_results st) @
           (if r = None \<and> wants_tool decision then [decision_function decision] else [])"
proof -
  have "messages st' =
           messages st @ (if r = None then [AssistantMessage (json_dumps ext decision)] else []) \<and>
        calls st' =
           calls st @ (if r = None then (case invocation self decision of None \<Rightarrow> [] | Some c \<Rightarrow> [c]) else []) \<and>
        map (\<lambda>nr. Some (fst nr)) (tool_results st') =
           map (\<lambda>nr. Some (fst nr)) (tool_results st) @
           (if r = None \<and> wants_tool decision then [decision_function decision] else [])"
  proof (cases "\<exists>d. decision = JObj d")
    case False
    then have "process_decision ext self decision st =
        (Some (AttributeError (type_name decision) ''get''), st)"
      by (intro process_decision_not_dict) simp
    with assms show ?thesis by auto
  next
    case True
    then obtain d where d: "decision = JObj d" by auto
    show ?thesis
    proof (cases "map_of d ''decision'' = Some (JStr ''tool'')")
      case False
      with assms d show ?thesis
        by (auto simp: process_decision_no_tool wants_tool_def invocation_def)
    next
      case tool: True
      show ?thesis
      proof (cases rule: execute_tool_cases [of d ext self "world st"])
        case no_key
        with assms d tool show ?thesis by (auto simp: process_decision_tool)
      next
        case (lookup_raises func_name e)
        with assms d tool show ?thesis by (auto simp: process_decision_tool)
      next
        case (not_callable func_name v)
        with assms d tool show ?thesis
          by (auto simp: process_decision_tool wants_tool_def decision_function_def invocation_tool)
      next
        case (called func_name func r' w' ks)
        from called(3) have "ks = (case decision_args d of JObj kwargs \<Rightarrow> [kwargs] | _ \<Rightarrow> [])"
          by (rule py_call_entries)
        with called(1,2,4) assms d tool show ?thesis
          by (cases "decision_args d")
            (auto simp: process_decision_tool wants_tool_def decision_function_def invocation_tool)
      qed
    qed
  qed
  then show "messages st' =
           messages st @ (if r = None then [AssistantMessage (json_dumps ext decision)] else [])"
    and "calls st' =
           calls st @ (if r = None then (case invocation self decision of None \<Rightarrow> [] | Some c \<Rightarrow> [c]) else [])"
    and "map (\<lambda>nr. Some (fst nr)) (tool_results st') =
           map (\<lambda>nr. Some (fst nr)) (tool_results st) @
           (if r = None \<and> wants_tool decision then [decision_function decision] else [])"
    by simp_all
qed

lemma execute_decisions_effects:
  "execute_decisions ext self ds st = (None, st') \<Longrightarrow>
   messages st' = messages st @ map (\<lambda>d. AssistantMessage (json_dumps ext d)) ds \<and>
   calls st' = calls st @ List.map_filter (invocation self) ds \<and>
   map (\<lambda>nr. Some (fst nr)) (tool_results st') =
     map (\<lambda>nr. Some (fst nr)) (tool_results st) @ map decision_function (filter wants_tool ds)"
proof (induction ds arbitrary: st)
  case Nil
  then show ?case by simp
next
  case (Cons d ds)
  obtain r st1 where step: "process_decision ext self d st = (r, st1)"
    by (cases "process_decision ext self d st") auto
  with Cons.prems have r: "r = None" and rest: "execute_decisions ext self ds st1 = (None, st')"
    by (auto split: option.splits)
  note eff = process_decision_effects [OF step]
  from Cons.IH [OF rest] eff r show ?case
    by (cases "invocation self d") simp_all
qed

section \<open>Lookups and the run\<close>

lemma map_of_get_description_for_prompt:
  "map_of (get_description_for_prompt self) name =
     map_option (\<lambda>entry. JObj [(''description'', entry_description entry),
                                (''parameters'', entry_parameters entry)])
       (map_of (tools self) name)"
  unfolding get_description_for_prompt_def
  by (induction "tools self" arbitrary: self) (auto simp: map_of_map split: prod.splits)

lemma get_callable_str:
  "get_callable reg (JStr name) =
     (case map_of (tools reg) name of
        None \<Rightarrow> Inr (NotCallable JNull)
      | Some entry \<Rightarrow> Inr (entry_function entry))"
  by (simp add: get_callable_def)

lemma run_decisions:
  assumes "orchestration_run ext (decision_config ext self q) w = (Inr content, w1)"
    and "json_loads ext content = Inr dj"
    and "get_tool_calls dj = Inr ds"
  shows "run ext self q w =
           (case execute_decisions ext self ds (initial_state ext self q w1) of
              (Some e, st) \<Rightarrow> (Inl e, world st)
            | (None, st) \<Rightarrow>
                finalize_response ext self q (tool_results st) (messages st) (world st))"
  using assms by (simp add: run_def)

lemma transport_decision:
  "orchestration_run (transport content parsed) (decision_config ext self q) w =
     (Inr content, Suc w)"
  by (simp add: transport_def decision_config_def)

lemma transport_loads: "json_loads (transport content parsed) content = parsed"
  by (simp add: transport_def)

lemma get_tool_calls_reply: "get_tool_calls (reply ds) = Inr (map JObj ds)"
  by (simp add: get_tool_calls_def reply_def py_iter_def)

lemma registry_names:
  "map fst (tools registry) = [''get_weather'', ''get_time_now'', ''retriever'']"
  by (simp add: registry_def register_def ToolRegistry_init_def)

section \<open>Evaluating the concrete setting\<close>

lemma execute_tool_called:
  assumes "map_of d ''function'' = Some (JStr name)"
    and "get_callable (tool_registry self) (JStr name) = Inr (Callable func)"
    and "decision_args d = JObj kwargs"
  shows "execute_tool ext self d w =
           (case invoke func kwargs w of
              (Returns result, w') \<Rightarrow> (Inr result, w', [(JStr name, kwargs)])
            | (Raises m, w') \<Rightarrow> (Inr (JStr (''Error: '' @ m)), w', [(JStr name, kwargs)]))"
  using assms
  by (simp add: execute_tool_def py_call_def decision_args_def split: prod.splits outcome.splits)

lemma get_callable_retriever:
  "get_callable (tool_registry agent) (JStr ''retriever'') = Inr (Callable retriever)"
  by (simp add: get_callable_str agent_def registry_def register_def ToolRegistry_init_def)

lemma get_callable_get_time_now:
  "get_callable (tool_registry agent) (JStr ''get_time_now'') = Inr (Callable get_time_now)"
  by (simp add: get_callable_str agent_def registry_def register_def ToolRegistry_init_def)

lemma execute_tool_time:
  "execute_tool ext agent decision_time w =
     (Inr (JObj [(''time'', JStr ''2025-06-01 12:00:00'')]), Suc w, [(JStr ''get_time_now'', [])])"
proof -
  have "map_of decision_time ''function'' = Some (JStr ''get_time_now'')"
    and "decision_args decision_time = JObj []"
    by (simp_all add: decision_time_def decision_args_def)
  then show ?thesis
    using execute_tool_called [of decision_time "''get_time_now''" agent get_time_now "[]" ext w]
    by (simp add: get_callable_get_time_now get_time_now_def)
qed

lemma process_decision_time:
  "process_decision ext agent (JObj decision_time) st =
     (None,
      st\<lparr>tool_results := tool_results st @
             [(JStr ''get_time_now'', JObj [(''time'', JStr ''2025-06-01 12:00:00'')])],
          messages := messages st @ [AssistantMessage (json_dumps ext (JObj decision_time))],
          calls := calls st @ [(JStr ''get_time_now'', [])],
          world := Suc (world st)\<rparr>)"
proof -
  have "map_of decision_time ''decision'' = Some (JStr ''tool'')"
    and "map_of decision_time ''function'' = Some (JStr ''get_time_now'')"
    by (simp_all add: decision_time_def)
  then show ?thesis
    by (simp add: process_decision_tool execute_tool_time)
qed

lemma process_decision_retriever:
  "process_decision ext agent (JObj decision_retriever) st =
     (None,
      st\<lparr>tool_results := tool_results st @
             [(JStr ''retriever'', JStr ''Error: Connection failed'')],
          messages := messages st @ [AssistantMessage (json_dumps ext (JObj decision_retriever))],
          calls := calls st @
             [(JStr ''retriever'', [(''question'', JStr ''What is SAP Business Data Cloud?'')])],
          world := Suc (world st)\<rparr>)"
proof -
  have h: "map_of decision_retriever ''decision'' = Some (JStr ''tool'')"
    "map_of decision_retriever ''function'' = Some (JStr ''retriever'')"
    "decision_args decision_retriever =
       JObj [(''question'', JStr ''What is SAP Business Data Cloud?'')]"
    by (simp_all add: decision_retriever_def decision_args_def)
  have "execute_tool ext agent decision_retriever (world st) =
     (Inr (JStr ''Error: Connection failed''), Suc (world st),
      [(JStr ''retriever'', [(''question'', JStr ''What is SAP Business Data Cloud?'')])])"
    using execute_tool_called [OF h(2) get_callable_retriever h(3), of ext "world st"]
    by (simp add: retriever_def)
  then show ?thesis using h(1,2) by (simp add: process_decision_tool)
qed

lemma process_decision_none:
  "process_decision ext self (JObj decision_none) st =
     (None, st\<lparr>messages := messages st @
        [AssistantMessage (json_dumps ext (JObj decision_none))]\<rparr>)"
  by (simp add: process_decision_no_tool decision_none_def)

lemma wants_tool_examples:
  "wants_tool (JObj decision_time)" "wants_tool (JObj decision_retriever)"
  "\<not> wants_tool (JObj decision_none)"
  by (simp_all add: wants_tool_def decision_time_def decision_retriever_def decision_none_def)

lemma decision_function_examples:
  "decision_function (JObj decision_time) = Some (JStr ''get_time_now'')"
  "decision_function (JObj decision_retriever) = Some (JStr ''retriever'')"
  by (simp_all add: decision_function_def decision_time_def decision_retriever_def)

lemma execute_decisions_mixed:
  "execute_decisions ext agent
     [JObj decision_time, JObj decision_none, JObj decision_retriever] st =
     (None,
      st\<lparr>tool_results := tool_results st @
            [(JStr ''get_time_now'', JObj [(''time'', JStr ''2025-06-01 12:00:00'')]),
             (JStr ''retriever'', JStr ''Error: Connection failed'')],
          messages := messages st @
            [AssistantMessage (json_dumps ext (JObj decision_time)),
             AssistantMessage (json_dumps ext (JObj decision_none)),
             AssistantMessage (json_dumps ext (JObj decision_retriever))],
          calls := calls st @
            [(JStr ''get_time_now'', []),
             (JStr ''retriever'', [(''question'', JStr ''What is SAP Business Data Cloud?'')])],
          world := Suc (Suc (world st))\<rparr>)"
  by (simp add: process_decision_time process_decision_none process_decision_retriever)

lemma join_char:
  "join [c] xs = butlast (concat (map (\<lambda>x. x @ [c]) xs))"
proof (induction "[c]" xs rule: join.induct)
  case 1
  show ?case by simp
next
  case (2 x)
  show ?case by simp
next
  case (3 x y ys)
  then show ?case by (simp add: butlast_append)
qed

lemma tool_summary_lines:
  "join ''\<newline>'' (map (tool_line ext) results) =
     butlast (concat (map (\<lambda>(name, result).
        ''- Tool `'' @ format_value ext name @ ''` returned: '' @ json_dumps ext result @
        ''\<newline>'') results))"
  by (simp add: join_char tool_line_def case_prod_unfold comp_def)

lemma tool_summary_empty:
  "(butlast (concat (map (\<lambda>(name, result).
        ''- Tool `'' @ format_value ext name @ ''` returned: '' @ json_dumps ext result @
        ''\<newline>'') results)) = []) = (results = [])"
  by (cases results) (simp_all add: case_prod_unfold)

lemma transport_echo_decision:
  "orchestration_run (transport_echo content parsed) (decision_config ext self q) w =
     (Inr content, Suc w)"
  by (simp add: transport_echo_def decision_config_def)

lemma transport_echo_loads: "json_loads (transport_echo content parsed) content = parsed"
  by (simp add: transport_echo_def)

lemma process_decision_stock:
  "process_decision ext agent (JObj decision_stock) st =
     (None,
      st\<lparr>tool_results := tool_results st @
             [(JStr ''get_stock_price'',
               JStr (''Function '' @ [CHR 0x27] @ ''get_stock_price'' @ [CHR 0x27] @
                     '' not found.''))],
          messages := messages st @ [AssistantMessage (json_dumps ext (JObj decision_stock))]\<rparr>)"
proof -
  have h: "map_of decision_stock ''decision'' = Some (JStr ''tool'')"
    "map_of decision_stock ''function'' = Some (JStr ''get_stock_price'')"
    by (simp_all add: decision_stock_def)
  have "map_of (tools (tool_registry agent)) ''get_stock_price'' = None"
    unfolding agent_def map_of_eq_None_iff set_map [symmetric]
    by (simp add: registry_names)
  then have "execute_tool ext agent decision_stock (world st) =
      (Inr (JStr (''Function '' @ [CHR 0x27] @ ''get_stock_price'' @ [CHR 0x27] @
                  '' not found.'')), world st, [])"
    using h(2) by (simp add: execute_tool_def get_callable_str format_value_def quoted_def)
  then show ?thesis using h by (simp add: process_decision_tool)
qed

lemma invocation_stock: "invocation agent (JObj decision_stock) = None"
proof -
  have "map_of (tools (tool_registry agent)) ''get_stock_price'' = None"
    unfolding agent_def map_of_eq_None_iff set_map [symmetric]
    by (simp add: registry_names)
  then show ?thesis
    using invocation_tool [of decision_stock "JStr ''get_stock_price''" agent]
    by (simp add: get_callable_str) (simp add: decision_stock_def)
qed

section \<open>The capability manifest\<close>

text \<open>
  C6. For every registry, \<^verbatim>\<open>get_description_for_prompt()\<close> has exactly the registered
  names as keys, in the registry's order, and maps each name to the dict of exactly its
  stored description and parameter spec; the stored callable is not part of it. What
  \<^verbatim>\<open>register\<close> stored under a name is what the manifest shows for it.
\<close>

theorem manifest_exact:
  "map fst (get_description_for_prompt self) = map fst (tools self) \<and>
   map_of (get_description_for_prompt self) name =
     map_option (\<lambda>entry. JObj [(''description'', entry_description entry),
                                (''parameters'', entry_parameters entry)])
       (map_of (tools self) name) \<and>
   map_of (get_description_for_prompt (register self name func description parameters)) name =
     Some (JObj [(''description'', description), (''parameters'', parameters)])"
proof -
  have "map fst (get_description_for_prompt self) = map fst (tools self)"
    by (simp add: get_description_for_prompt_def case_prod_unfold)
  moreover have "map_of (tools (register self name func description parameters)) name =
      Some \<lparr>entry_function = func, entry_description = description,
            entry_parameters = parameters\<rparr>"
    by (simp add: register_def update_conv')
  ultimately show ?thesis
    by (simp add: map_of_get_description_for_prompt)
qed

section \<open>Failures of a single tool call\<close>

text \<open>
  C1. A decision that asks for a tool under a name that is not registered yields the result
  \<^verbatim>\<open>Function '<name>' not found.\<close> without raising and without entering any callable;
  the loop records the pair and the assistant message and goes on with the remaining
  decisions from there; and when it is the only decision, the run reaches the synthesis
  with this one result.
\<close>

theorem unregistered_function_reported:
  assumes "map_of d ''decision'' = Some (JStr ''tool'')"
    and "map_of d ''function'' = Some (JStr name)"
    and "map_of (tools (tool_registry self)) name = None"
  shows "execute_tool ext self d (world st) =
           (Inr (JStr (''Function '' @ [CHR 0x27] @ name @ [CHR 0x27] @ '' not found.'')),
            world st, []) \<and>
         execute_decisions ext self (JObj d # rest) st =
           execute_decisions ext self rest
             (st\<lparr>tool_results := tool_results st @
                    [(JStr name,
                      JStr (''Function '' @ [CHR 0x27] @ name @ [CHR 0x27] @ '' not found.''))],
                 messages := messages st @ [AssistantMessage (json_dumps ext (JObj d))]\<rparr>) \<and>
         (orchestration_run ext (decision_config ext self q) w = (Inr content, w1) \<and>
          json_loads ext content = Inr dj \<and> get_tool_calls dj = Inr [JObj d] \<longrightarrow>
          run ext self q w =
            finalize_response ext self q
              [(JStr name,
                JStr (''Function '' @ [CHR 0x27] @ name @ [CHR 0x27] @ '' not found.''))]
              [SystemMessage (generate_instruction ext self), UserMessage q,
               AssistantMessage (json_dumps ext (JObj d))]
              w1)"
proof -
  have e: "execute_tool ext self d w' =
           (Inr (JStr (''Function '' @ [CHR 0x27] @ name @ [CHR 0x27] @ '' not found.'')),
            w', [])" for w'
    using assms(2,3)
    by (simp add: execute_tool_def get_callable_str format_value_def quoted_def)
  have p: "process_decision ext self (JObj d) st' =
          (None, st'\<lparr>tool_results := tool_results st' @
                    [(JStr name,
                      JStr (''Function '' @ [CHR 0x27] @ name @ [CHR 0x27] @ '' not found.''))],
                 messages := messages st' @ [AssistantMessage (json_dumps ext (JObj d))]\<rparr>)"
    for st' :: "'a run_state"
    using assms(1,2) e by (simp add: process_decision_tool)
  have "run ext self q w =
            finalize_response ext self q
              [(JStr name,
                JStr (''Function '' @ [CHR 0x27] @ name @ [CHR 0x27] @ '' not found.''))]
              [SystemMessage (generate_instruction ext self), UserMessage q,
               AssistantMessage (json_dumps ext (JObj d))]
              w1"
    if "orchestration_run ext (decision_config ext self q) w = (Inr content, w1)"
      and "json_loads ext content = Inr dj" and "get_tool_calls dj = Inr [JObj d]"
    using run_decisions [OF that] by (simp add: p initial_state_def)
  then show ?thesis using e p by simp
qed

theorem unregistered_function_reported_witness:
  "map_of decision_stock ''decision'' = Some (JStr ''tool'') \<and>
   map_of decision_stock ''function'' = Some (JStr ''get_stock_price'') \<and>
   map_of (tools (tool_registry agent)) ''get_stock_price'' = None \<and>
   orchestration_run (transport content_stock (Inr (reply [decision_stock])))
     (decision_config (transport content_stock (Inr (reply [decision_stock]))) agent
        ''What is the SAP share price?'') 0 = (Inr content_stock, 1) \<and>
   json_loads (transport content_stock (Inr (reply [decision_stock]))) content_stock =
     Inr (reply [decision_stock]) \<and>
   get_tool_calls (reply [decision_stock]) = Inr [JObj decision_stock] \<and>
   execute_tool (transport content_stock (Inr (reply [decision_stock]))) agent decision_stock
     (0::nat) =
     (Inr (JStr (''Function '' @ [CHR 0x27] @ ''get_stock_price'' @ [CHR 0x27] @
                 '' not found.'')), 0, []) \<and>
   run (transport content_stock (Inr (reply [decision_stock]))) agent
     ''What is the SAP share price?'' 0 =
     finalize_response (transport content_stock (Inr (reply [decision_stock]))) agent
       ''What is the SAP share price?''
       [(JStr ''get_stock_price'',
         JStr (''Function '' @ [CHR 0x27] @ ''get_stock_price'' @ [CHR 0x27] @ '' not found.''))]
       [SystemMessage (generate_instruction
          (transport content_stock (Inr (reply [decision_stock]))) agent),
        UserMessage ''What is the SAP share price?'',
        AssistantMessage (json_dumps (transport content_stock (Inr (reply [decision_stock])))
          (JObj decision_stock))]
       1"
proof -
  have h1: "map_of decision_stock ''decision'' = Some (JStr ''tool'')"
    by (simp add: decision_stock_def)
  have h2: "map_of decision_stock ''function'' = Some (JStr ''get_stock_price'')"
    by (simp add: decision_stock_def)
  have h3: "map_of (tools (tool_registry agent)) ''get_stock_price'' = None"
    unfolding agent_def map_of_eq_None_iff set_map [symmetric]
    by (simp add: registry_names)
  have h4: "get_tool_calls (reply [decision_stock]) = Inr [JObj decision_stock]"
    by (simp add: get_tool_calls_reply)
  show ?thesis
    using unregistered_function_reported [OF h1 h2 h3,
        of "transport content_stock (Inr (reply [decision_stock]))"
           "\<lparr>tool_results = [], messages = [], calls = [], world = 0\<rparr>" "[]"
           "''What is the SAP share price?''" 0 content_stock 1 "reply [decision_stock]"]
      h1 h2 h3 h4
    by (simp add: transport_decision transport_loads)
qed

text \<open>
  C2. When a decision asks for a registered callable and the call raises an exception with
  message \<open>M\<close>, the result is exactly \<^verbatim>\<open>Error: M\<close>; nothing is raised, the callable
  was entered once, and the loop records the pair and the assistant message and goes on with
  the remaining decisions from the world the call left.
\<close>

theorem raising_tool_reported:
  assumes "map_of d ''decision'' = Some (JStr ''tool'')"
    and "map_of d ''function'' = Some (JStr name)"
    and "get_callable (tool_registry self) (JStr name) = Inr (Callable func)"
    and "decision_args d = JObj kwargs"
    and "invoke func kwargs (world st) = (Raises M, w')"
  shows "execute_tool ext self d (world st) =
           (Inr (JStr (''Error: '' @ M)), w', [(JStr name, kwargs)]) \<and>
         execute_decisions ext self (JObj d # rest) st =
           execute_decisions ext self rest
             (st\<lparr>tool_results := tool_results st @ [(JStr name, JStr (''Error: '' @ M))],
                 messages := messages st @ [AssistantMessage (json_dumps ext (JObj d))],
                 calls := calls st @ [(JStr name, kwargs)],
                 world := w'\<rparr>)"
proof -
  have e: "execute_tool ext self d (world st) =
           (Inr (JStr (''Error: '' @ M)), w', [(JStr name, kwargs)])"
    using execute_tool_called [OF assms(2,3,4), of ext "world st"] assms(5) by simp
  have "process_decision ext self (JObj d) st =
          (None, st\<lparr>tool_results := tool_results st @ [(JStr name, JStr (''Error: '' @ M))],
                 messages := messages st @ [AssistantMessage (json_dumps ext (JObj d))],
                 calls := calls st @ [(JStr name, kwargs)],
                 world := w'\<rparr>)"
    using assms(1,2) e by (simp add: process_decision_tool)
  then show ?thesis using e by simp
qed

theorem raising_tool_reported_witness:
  "map_of decision_retriever ''decision'' = Some (JStr ''tool'') \<and>
   map_of decision_retriever ''function'' = Some (JStr ''retriever'') \<and>
   get_callable (tool_registry agent) (JStr ''retriever'') = Inr (Callable retriever) \<and>
   decision_args decision_retriever =
     JObj [(''question'', JStr ''What is SAP Business Data Cloud?'')] \<and>
   invoke retriever [(''question'', JStr ''What is SAP Business Data Cloud?'')] 1 =
     (Raises ''Connection failed'', 2) \<and>
   execute_tool transport_mixed agent decision_retriever 1 =
     (Inr (JStr ''Error: Connection failed''), 2,
      [(JStr ''retriever'', [(''question'', JStr ''What is SAP Business Data Cloud?'')])]) \<and>
   execute_decisions transport_mixed agent [JObj decision_retriever]
     \<lparr>tool_results = [], messages = [], calls = [], world = 1\<rparr> =
     (None,
      \<lparr>tool_results = [(JStr ''retriever'', JStr ''Error: Connection failed'')],
       messages = [AssistantMessage (json_dumps transport_mixed (JObj decision_retriever))],
       calls = [(JStr ''retriever'', [(''question'', JStr ''What is SAP Business Data Cloud?'')])],
       world = 2\<rparr>)"
proof -
  have h1: "map_of decision_retriever ''decision'' = Some (JStr ''tool'')"
    by (simp add: decision_retriever_def)
  have h2: "map_of decision_retriever ''function'' = Some (JStr ''retriever'')"
    by (simp add: decision_retriever_def)
  have h4: "decision_args decision_retriever =
     JObj [(''question'', JStr ''What is SAP Business Data Cloud?'')]"
    by (simp add: decision_args_def decision_retriever_def)
  have h5: "invoke retriever [(''question'', JStr ''What is SAP Business Data Cloud?'')]
      (world \<lparr>tool_results = [], messages = [], calls = [], world = 1\<rparr>) =
     (Raises ''Connection failed'', 2)"
    by (simp add: retriever_def)
  show ?thesis
    using raising_tool_reported [OF h1 h2 get_callable_retriever h4 h5, of transport_mixed "[]"]
      h1 h2 get_callable_retriever h4 h5
    by simp
qed

text \<open>
  C8. The not-found branch is decided by callability, not by membership: a name that is
  registered with a value that is not callable yields \<^verbatim>\<open>Function '<name>' not found.\<close>
  and the loop records it like any other result.
\<close>

theorem non_callable_entry_not_found:
  assumes "map_of d ''decision'' = Some (JStr ''tool'')"
    and "map_of d ''function'' = Some (JStr name)"
    and "map_of (tools (tool_registry self)) name = Some entry"
    and "entry_function entry = NotCallable v"
  shows "execute_tool ext self d (world st) =
           (Inr (JStr (''Function '' @ [CHR 0x27] @ name @ [CHR 0x27] @ '' not found.'')),
            world st, []) \<and>
         process_decision ext self (JObj d) st =
           (None,
            st\<lparr>tool_results := tool_results st @
                   [(JStr name,
                     JStr (''Function '' @ [CHR 0x27] @ name @ [CHR 0x27] @ '' not found.''))],
                messages := messages st @ [AssistantMessage (json_dumps ext (JObj d))]\<rparr>)"
proof -
  have e: "execute_tool ext self d (world st) =
           (Inr (JStr (''Function '' @ [CHR 0x27] @ name @ [CHR 0x27] @ '' not found.'')),
            world st, [])"
    using assms(2,3,4)
    by (simp add: execute_tool_def get_callable_str format_value_def quoted_def)
  then show ?thesis
    using assms(1,2) by (simp add: process_decision_tool)
qed

theorem non_callable_entry_not_found_witness:
  "map_of decision_time ''decision'' = Some (JStr ''tool'') \<and>
   map_of decision_time ''function'' = Some (JStr ''get_time_now'') \<and>
   map_of (tools (tool_registry (agent\<lparr>tool_registry := registry_with_string\<rparr>)))
     ''get_time_now'' =
     Some \<lparr>entry_function = NotCallable (JStr ''get_time_now''),
           entry_description =
             JStr ''Returns the current local time in YYYY-MM-DD HH:MM:SS format.'',
           entry_parameters = JObj []\<rparr> \<and>
   execute_tool transport_mixed (agent\<lparr>tool_registry := registry_with_string\<rparr>) decision_time 1 =
     (Inr (JStr (''Function '' @ [CHR 0x27] @ ''get_time_now'' @ [CHR 0x27] @ '' not found.'')),
      1, [])"
proof -
  have h1: "map_of decision_time ''decision'' = Some (JStr ''tool'')"
    by (simp add: decision_time_def)
  have h2: "map_of decision_time ''function'' = Some (JStr ''get_time_now'')"
    by (simp add: decision_time_def)
  have h3: "map_of (tools (tool_registry (agent\<lparr>tool_registry := registry_with_string\<rparr>)))
     ''get_time_now'' =
     Some \<lparr>entry_function = NotCallable (JStr ''get_time_now''),
           entry_description =
             JStr ''Returns the current local time in YYYY-MM-DD HH:MM:SS format.'',
           entry_parameters = JObj []\<rparr>"
    by (simp add: registry_with_string_def registry_def register_def ToolRegistry_init_def)
  show ?thesis
    using non_callable_entry_not_found [OF h1 h2 h3, of "JStr ''get_time_now''" transport_mixed
        "\<lparr>tool_results = [], messages = [], calls = [], world = 1\<rparr>"]
      h1 h2 h3
    by simp
qed

text \<open>
  C9. A decision that asks for a tool and has no \<^verbatim>\<open>"function"\<close> entry raises
  \<^verbatim>\<open>KeyError\<close> before the exception handler is entered: the step leaves the state as it
  was, with no result recorded, and the run ends with that error, the remaining decisions
  unprocessed.
\<close>

theorem missing_function_key_aborts:
  assumes "orchestration_run ext (decision_config ext self q) w = (Inr content, w1)"
    and "json_loads ext content = Inr dj"
    and "get_tool_calls dj = Inr (before @ JObj d # rest)"
    and "execute_decisions ext self before (initial_state ext self q w1) = (None, st)"
    and "map_of d ''decision'' = Some (JStr ''tool'')"
    and "map_of d ''function'' = None"
  shows "execute_tool ext self d (world st) = (Inl (KeyError ''function''), world st, []) \<and>
         process_decision ext self (JObj d) st = (Some (KeyError ''function''), st) \<and>
         run ext self q w = (Inl (KeyError ''function''), world st)"
proof -
  have e: "execute_tool ext self d (world st) = (Inl (KeyError ''function''), world st, [])"
    using assms(6) by (simp add: execute_tool_def)
  have p: "process_decision ext self (JObj d) st = (Some (KeyError ''function''), st)"
    using assms(5) e by (simp add: process_decision_tool)
  have "execute_decisions ext self (before @ JObj d # rest) (initial_state ext self q w1) =
          (Some (KeyError ''function''), st)"
    using assms(4) p by (simp add: execute_decisions_append)
  then have "run ext self q w = (Inl (KeyError ''function''), world st)"
    using run_decisions [OF assms(1,2,3)] by simp
  then show ?thesis using e p by simp
qed

theorem missing_function_key_aborts_witness:
  "orchestration_run transport_nameless
     (decision_config transport_nameless agent ''What time is it?'') 0 =
     (Inr content_nameless, 1) \<and>
   json_loads transport_nameless content_nameless =
     Inr (reply [decision_time, decision_nameless, decision_none]) \<and>
   get_tool_calls (reply [decision_time, decision_nameless, decision_none]) =
     Inr ([JObj decision_time] @ JObj decision_nameless # [JObj decision_none]) \<and>
   map_of decision_nameless ''decision'' = Some (JStr ''tool'') \<and>
   map_of decision_nameless ''function'' = None \<and>
   run transport_nameless agent ''What time is it?'' 0 = (Inl (KeyError ''function''), 2)"
proof -
  have h1: "orchestration_run transport_nameless
     (decision_config transport_nameless agent ''What time is it?'') 0 =
     (Inr content_nameless, 1)"
    by (simp add: transport_nameless_def transport_decision)
  have h2: "json_loads transport_nameless content_nameless =
     Inr (reply [decision_time, decision_nameless, decision_none])"
    by (simp add: transport_nameless_def transport_loads)
  have h3: "get_tool_calls (reply [decision_time, decision_nameless, decision_none]) =
     Inr ([JObj decision_time] @ JObj decision_nameless # [JObj decision_none])"
    by (simp add: get_tool_calls_reply)
  have h4: "execute_decisions transport_nameless agent [JObj decision_time]
      (initial_state transport_nameless agent ''What time is it?'' 1) =
     (None,
      (initial_state transport_nameless agent ''What time is it?'' 1)
        \<lparr>tool_results := [(JStr ''get_time_now'', JObj [(''time'', JStr ''2025-06-01 12:00:00'')])],
         messages := messages (initial_state transport_nameless agent ''What time is it?'' 1) @
            [AssistantMessage (json_dumps transport_nameless (JObj decision_time))],
         calls := [(JStr ''get_time_now'', [])],
         world := 2\<rparr>)"
    by (simp add: process_decision_time initial_state_def)
  have h5: "map_of decision_nameless ''decision'' = Some (JStr ''tool'')"
    by (simp add: decision_nameless_def)
  have h6: "map_of decision_nameless ''function'' = None"
    by (simp add: decision_nameless_def)
  show ?thesis
    using missing_function_key_aborts [OF h1 h2 h3 h4 h5 h6] h1 h2 h3 h5 h6
    by simp
qed

text \<open>
  C10. A decision that asks for a registered callable and has no \<^verbatim>\<open>"parameters"\<close>
  entry does not fail: the callable is entered once with no keyword arguments and its
  outcome becomes the result, exactly as for the same decision with an empty
  \<^verbatim>\<open>"parameters"\<close> object.
\<close>

theorem missing_parameters_default_empty:
  assumes "map_of d ''function'' = Some (JStr name)"
    and "get_callable (tool_registry self) (JStr name) = Inr (Callable func)"
    and "map_of d ''parameters'' = None"
  shows "execute_tool ext self d w =
           (case invoke func [] w of
              (Returns result, w') \<Rightarrow> (Inr result, w', [(JStr name, [])])
            | (Raises m, w') \<Rightarrow> (Inr (JStr (''Error: '' @ m)), w', [(JStr name, [])])) \<and>
         execute_tool ext self d w = execute_tool ext self (d @ [(''parameters'', JObj [])]) w"
proof -
  have a: "decision_args d = JObj []"
    using assms(3) by (simp add: decision_args_def)
  have f: "map_of (d @ [(''parameters'', JObj [])]) ''function'' = Some (JStr name)"
    using assms(1) by (simp add: map_add_def)
  have b: "decision_args (d @ [(''parameters'', JObj [])]) = JObj []"
    using assms(3) by (simp add: decision_args_def map_add_def)
  show ?thesis
    using execute_tool_called [OF assms(1,2) a, of ext w]
      execute_tool_called [OF f assms(2) b, of ext w]
    by simp
qed

theorem missing_parameters_default_empty_witness:
  "map_of decision_time_bare ''function'' = Some (JStr ''get_time_now'') \<and>
   get_callable (tool_registry agent) (JStr ''get_time_now'') = Inr (Callable get_time_now) \<and>
   map_of decision_time_bare ''parameters'' = None \<and>
   decision_time_bare @ [(''parameters'', JObj [])] = decision_time \<and>
   execute_tool transport_mixed agent decision_time_bare 1 =
     (Inr (JObj [(''time'', JStr ''2025-06-01 12:00:00'')]), 2, [(JStr ''get_time_now'', [])]) \<and>
   execute_tool transport_mixed agent decision_time_bare 1 =
     execute_tool transport_mixed agent decision_time 1"
proof -
  have h1: "map_of decision_time_bare ''function'' = Some (JStr ''get_time_now'')"
    by (simp add: decision_time_bare_def)
  have h3: "map_of decision_time_bare ''parameters'' = None"
    by (simp add: decision_time_bare_def)
  have h4: "decision_time_bare @ [(''parameters'', JObj [])] = decision_time"
    by (simp add: decision_time_bare_def decision_time_def)
  show ?thesis
    using missing_parameters_default_empty [OF h1 get_callable_get_time_now h3,
        of transport_mixed 1]
      h1 get_callable_get_time_now h3 h4
    by (simp add: get_time_now_def execute_tool_time)
qed

section \<open>Decisions without a tool\<close>

text \<open>
  C5. A decision whose \<^verbatim>\<open>"decision"\<close> entry is not \<^verbatim>\<open>"tool"\<close> enters no callable,
  leaves the world and the tool results as they were, and appends exactly one assistant
  message, the serialised decision.
\<close>

theorem no_tool_decision_only_recorded:
  assumes "map_of d ''decision'' \<noteq> Some (JStr ''tool'')"
  shows "process_decision ext self (JObj d) st =
           (None, st\<lparr>messages := messages st @ [AssistantMessage (json_dumps ext (JObj d))]\<rparr>) \<and>
         calls (snd (process_decision ext self (JObj d) st)) = calls st \<and>
         world (snd (process_decision ext self (JObj d) st)) = world st \<and>
         tool_results (snd (process_decision ext self (JObj d) st)) = tool_results st"
  using assms by (simp add: process_decision_no_tool)

theorem no_tool_decision_only_recorded_witness:
  "map_of decision_none ''decision'' \<noteq> Some (JStr ''tool'') \<and>
   process_decision transport_nameless agent (JObj decision_none)
     \<lparr>tool_results = [], messages = [], calls = [], world = 1\<rparr> =
     (None,
      \<lparr>tool_results = [],
       messages = [AssistantMessage (json_dumps transport_nameless (JObj decision_none))],
       calls = [], world = 1\<rparr>)"
proof -
  have h: "map_of decision_none ''decision'' \<noteq> Some (JStr ''tool'')"
    by (simp add: decision_none_def)
  show ?thesis
    using no_tool_decision_only_recorded [OF h, of transport_nameless agent
        "\<lparr>tool_results = [], messages = [], calls = [], world = 1\<rparr>"] h
    by simp
qed

section \<open>Order of execution\<close>

text \<open>
  C4. When the loop runs to its end, the calls made are those of the decisions that lead to
  a call, in the order of the array, and the names of the collected results are the
  \<^verbatim>\<open>"function"\<close> entries of the decisions that ask for a tool, in the order of the array.
\<close>

theorem decisions_executed_in_order:
  assumes "execute_decisions ext self ds st = (None, st')"
  shows "calls st' = calls st @ List.map_filter (invocation self) ds \<and>
         map (\<lambda>nr. Some (fst nr)) (tool_results st') =
           map (\<lambda>nr. Some (fst nr)) (tool_results st) @
           map decision_function (filter wants_tool ds)"
  using execute_decisions_effects [OF assms] by simp

theorem decisions_executed_in_order_witness:
  "execute_decisions transport_mixed agent
     [JObj decision_time, JObj decision_none, JObj decision_retriever]
     \<lparr>tool_results = [], messages = [], calls = [], world = 1\<rparr> =
     (None,
      \<lparr>tool_results =
         [(JStr ''get_time_now'', JObj [(''time'', JStr ''2025-06-01 12:00:00'')]),
          (JStr ''retriever'', JStr ''Error: Connection failed'')],
       messages =
         [AssistantMessage (json_dumps transport_mixed (JObj decision_time)),
          AssistantMessage (json_dumps transport_mixed (JObj decision_none)),
          AssistantMessage (json_dumps transport_mixed (JObj decision_retriever))],
       calls =
         [(JStr ''get_time_now'', []),
          (JStr ''retriever'', [(''question'', JStr ''What is SAP Business Data Cloud?'')])],
       world = 3\<rparr>) \<and>
   List.map_filter (invocation agent)
     [JObj decision_time, JObj decision_none, JObj decision_retriever] =
     [(JStr ''get_time_now'', []),
      (JStr ''retriever'', [(''question'', JStr ''What is SAP Business Data Cloud?'')])] \<and>
   map decision_function
     (filter wants_tool [JObj decision_time, JObj decision_none, JObj decision_retriever]) =
     [Some (JStr ''get_time_now''), Some (JStr ''retriever'')]"
proof -
  have h: "execute_decisions transport_mixed agent
     [JObj decision_time, JObj decision_none, JObj decision_retriever]
     \<lparr>tool_results = [], messages = [], calls = [], world = 1\<rparr> =
     (None,
      \<lparr>tool_results =
         [(JStr ''get_time_now'', JObj [(''time'', JStr ''2025-06-01 12:00:00'')]),
          (JStr ''retriever'', JStr ''Error: Connection failed'')],
       messages =
         [AssistantMessage (json_dumps transport_mixed (JObj decision_time)),
          AssistantMessage (json_dumps transport_mixed (JObj decision_none)),
          AssistantMessage (json_dumps transport_mixed (JObj decision_retriever))],
       calls =
         [(JStr ''get_time_now'', []),
          (JStr ''retriever'', [(''question'', JStr ''What is SAP Business Data Cloud?'')])],
       world = 3\<rparr>)"
    by (subst execute_decisions_mixed) simp
  show ?thesis
    using decisions_executed_in_order [OF h] h
    by (simp add: wants_tool_examples decision_function_examples)
qed

section \<open>The synthesis request\<close>

text \<open>
  C7, as stated, fails in its last part: a decision that asks for a tool under a name that
  is not registered enters no callable, so no tool is executed, and yet its pair is collected
  and the summary of the synthesis request has a line for it.
\<close>

theorem no_tool_executed_summary_not_empty:
  "json_loads echo_stock content_stock = Inr (reply [decision_stock]) \<and>
   get_tool_calls (reply [decision_stock]) = Inr [JObj decision_stock] \<and>
   List.map_filter (invocation agent) [JObj decision_stock] = [] \<and>
   execute_decisions echo_stock agent [JObj decision_stock]
     (initial_state echo_stock agent ''What is the SAP share price?'' 1) =
     (None,
      \<lparr>tool_results =
         [(JStr ''get_stock_price'',
           JStr (''Function '' @ [CHR 0x27] @ ''get_stock_price'' @ [CHR 0x27] @
                 '' not found.''))],
       messages =
         [SystemMessage (generate_instruction echo_stock agent),
          UserMessage ''What is the SAP share price?'',
          AssistantMessage ''<dict>''],
       calls = [], world = 1\<rparr>) \<and>
   run echo_stock agent ''What is the SAP share price?'' 0 =
     (Inr (''system: '' @ generate_instruction echo_stock agent @ ''\<newline>'' @
           ''user: What is the SAP share price?\<newline>'' @
           ''assistant: <dict>\<newline>'' @
           ''system: '' @ synthesis_instruction @ ''\<newline>'' @
           ''user: User question: What is the SAP share price?\<newline>'' @
           ''user: Tool Results:\<newline>'' @
           ''- Tool `get_stock_price` returned: <str>\<newline>''), 2)"
proof -
  have l: "json_loads echo_stock content_stock = Inr (reply [decision_stock])"
    by (simp add: echo_stock_def transport_echo_loads)
  have d: "orchestration_run echo_stock
      (decision_config echo_stock agent ''What is the SAP share price?'') 0 =
      (Inr content_stock, 1)"
    by (simp add: echo_stock_def transport_echo_decision)
  have g: "get_tool_calls (reply [decision_stock]) = Inr [JObj decision_stock]"
    by (simp add: get_tool_calls_reply)
  have e: "execute_decisions echo_stock agent [JObj decision_stock]
     (initial_state echo_stock agent ''What is the SAP share price?'' 1) =
     (None,
      \<lparr>tool_results =
         [(JStr ''get_stock_price'',
           JStr (''Function '' @ [CHR 0x27] @ ''get_stock_price'' @ [CHR 0x27] @
                 '' not found.''))],
       messages =
         [SystemMessage (generate_instruction echo_stock agent),
          UserMessage ''What is the SAP share price?'',
          AssistantMessage ''<dict>''],
       calls = [], world = 1\<rparr>)"
    by (simp add: process_decision_stock initial_state_def)
      (simp add: echo_stock_def transport_echo_def type_name_def)
  have r: "run echo_stock agent ''What is the SAP share price?'' 0 =
     (Inr (''system: '' @ generate_instruction echo_stock agent @ ''\<newline>'' @
           ''user: What is the SAP share price?\<newline>'' @
           ''assistant: <dict>\<newline>'' @
           ''system: '' @ synthesis_instruction @ ''\<newline>'' @
           ''user: User question: What is the SAP share price?\<newline>'' @
           ''user: Tool Results:\<newline>'' @
           ''- Tool `get_stock_price` returned: <str>\<newline>''), 2)"
    unfolding run_decisions [OF d l g] e
    by (simp add: finalize_response_def tool_line_def format_value_def)
      (simp add: echo_stock_def transport_echo_def transcript_def type_name_def)
  show ?thesis using l g e r by (simp add: invocation_stock)
qed

text \<open>
  C7, amended. When the loop runs to its end, the run returns what the transport answers to
  the request made of: the instruction, the user's query, one assistant message per decision,
  the synthesis instruction, the user message with the original query, and the user message
  with the summary: one line per collected pair in order, each naming the tool and the
  serialised result, the lines separated by newlines. The collected names are the
  \<^verbatim>\<open>"function"\<close> entries of the decisions that ask for a tool, and the summary is
  empty exactly when no decision asks for one.
\<close>

theorem synthesis_input:
  assumes "orchestration_run ext (decision_config ext self q) w = (Inr content, w1)"
    and "json_loads ext content = Inr dj"
    and "get_tool_calls dj = Inr ds"
    and "execute_decisions ext self ds (initial_state ext self q w1) = (None, st)"
  shows "run ext self q w =
           orchestration_run ext
             \<lparr>config_template =
                \<lparr>template_messages =
                   [SystemMessage (generate_instruction ext self), UserMessage q] @
                   map (\<lambda>d. AssistantMessage (json_dumps ext d)) ds @
                   [SystemMessage synthesis_instruction,
                    UserMessage (''User question: '' @ q),
                    UserMessage (''Tool Results:\<newline>'' @
                      butlast (concat
                        (map (\<lambda>(name, result).
                                ''- Tool `'' @ format_value ext name @ ''` returned: '' @
                                json_dumps ext result @ ''\<newline>'')
                           (tool_results st))))],
                 template_response_format = ResponseFormatText\<rparr>,
              config_llm = llm self\<rparr>
             (world st) \<and>
         map (\<lambda>nr. Some (fst nr)) (tool_results st) =
           map decision_function (filter wants_tool ds) \<and>
         (butlast (concat
            (map (\<lambda>(name, result).
                    ''- Tool `'' @ format_value ext name @ ''` returned: '' @
                    json_dumps ext result @ ''\<newline>'')
               (tool_results st))) = []) =
           (filter wants_tool ds = [])"
proof -
  note eff = execute_decisions_effects [OF assms(4)]
  have m: "messages st =
      [SystemMessage (generate_instruction ext self), UserMessage q] @
      map (\<lambda>d. AssistantMessage (json_dumps ext d)) ds"
    using eff by (simp add: initial_state_def)
  have n: "map (\<lambda>nr. Some (fst nr)) (tool_results st) =
           map decision_function (filter wants_tool ds)"
    using eff by (simp add: initial_state_def)
  have r: "run ext self q w =
      finalize_response ext self q (tool_results st) (messages st) (world st)"
    using run_decisions [OF assms(1,2,3)] assms(4) by simp
  have "length (tool_results st) = length (filter wants_tool ds)"
    using arg_cong [OF n, of length] by simp
  then have z: "(tool_results st = []) = (filter wants_tool ds = [])"
    by (metis length_0_conv)
  have f: "run ext self q w =
           orchestration_run ext
             \<lparr>config_template =
                \<lparr>template_messages =
                   [SystemMessage (generate_instruction ext self), UserMessage q] @
                   map (\<lambda>d. AssistantMessage (json_dumps ext d)) ds @
                   [SystemMessage synthesis_instruction,
                    UserMessage (''User question: '' @ q),
                    UserMessage (''Tool Results:\<newline>'' @
                      butlast (concat
                        (map (\<lambda>(name, result).
                                ''- Tool `'' @ format_value ext name @ ''` returned: '' @
                                json_dumps ext result @ ''\<newline>'')
                           (tool_results st))))],
                 template_response_format = ResponseFormatText\<rparr>,
              config_llm = llm self\<rparr>
             (world st)"
    unfolding r finalize_response_def Let_def m tool_summary_lines by simp
  show ?thesis
    using f n z unfolding tool_summary_empty by blast
qed

theorem synthesis_input_witness:
  "orchestration_run echo_mixed (decision_config echo_mixed agent ''What time is it?'') 0 =
     (Inr content_mixed, 1) \<and>
   json_loads echo_mixed content_mixed =
     Inr (reply [decision_time, decision_none, decision_retriever]) \<and>
   get_tool_calls (reply [decision_time, decision_none, decision_retriever]) =
     Inr [JObj decision_time, JObj decision_none, JObj decision_retriever] \<and>
   execute_decisions echo_mixed agent
     [JObj decision_time, JObj decision_none, JObj decision_retriever]
     (initial_state echo_mixed agent ''What time is it?'' 1) =
     (None,
      \<lparr>tool_results =
         [(JStr ''get_time_now'', JObj [(''time'', JStr ''2025-06-01 12:00:00'')]),
          (JStr ''retriever'', JStr ''Error: Connection failed'')],
       messages =
         [SystemMessage (generate_instruction echo_mixed agent),
          UserMessage ''What time is it?'',
          AssistantMessage ''<dict>'', AssistantMessage ''<dict>'', AssistantMessage ''<dict>''],
       calls =
         [(JStr ''get_time_now'', []),
          (JStr ''retriever'', [(''question'', JStr ''What is SAP Business Data Cloud?'')])],
       world = 3\<rparr>) \<and>
   run echo_mixed agent ''What time is it?'' 0 =
     (Inr (''system: '' @ generate_instruction echo_mixed agent @ ''\<newline>'' @
           ''user: What time is it?\<newline>'' @
           ''assistant: <dict>\<newline>'' @
           ''assistant: <dict>\<newline>'' @
           ''assistant: <dict>\<newline>'' @
           ''system: '' @ synthesis_instruction @ ''\<newline>'' @
           ''user: User question: What time is it?\<newline>'' @
           ''user: Tool Results:\<newline>'' @
           ''- Tool `get_time_now` returned: <dict>\<newline>'' @
           ''- Tool `retriever` returned: <str>\<newline>''), 4) \<and>
   orchestration_run echo_none (decision_config echo_none agent ''Tell me a joke.'') 0 =
     (Inr content_none, 1) \<and>
   json_loads echo_none content_none = Inr (reply [decision_none]) \<and>
   get_tool_calls (reply [decision_none]) = Inr [JObj decision_none] \<and>
   filter wants_tool [JObj decision_none] = [] \<and>
   execute_decisions echo_none agent [JObj decision_none]
     (initial_state echo_none agent ''Tell me a joke.'' 1) =
     (None,
      \<lparr>tool_results = [],
       messages =
         [SystemMessage (generate_instruction echo_none agent),
          UserMessage ''Tell me a joke.'', AssistantMessage ''<dict>''],
       calls = [], world = 1\<rparr>) \<and>
   run echo_none agent ''Tell me a joke.'' 0 =
     (Inr (''system: '' @ generate_instruction echo_none agent @ ''\<newline>'' @
           ''user: Tell me a joke.\<newline>'' @
           ''assistant: <dict>\<newline>'' @
           ''system: '' @ synthesis_instruction @ ''\<newline>'' @
           ''user: User question: Tell me a joke.\<newline>'' @
           ''user: Tool Results:\<newline>'' @
           ''\<newline>''), 2)"
proof -
  have a1: "orchestration_run echo_mixed
     (decision_config echo_mixed agent ''What time is it?'') 0 = (Inr content_mixed, 1)"
    by (simp add: echo_mixed_def transport_echo_decision)
  have a2: "json_loads echo_mixed content_mixed =
     Inr (reply [decision_time, decision_none, decision_retriever])"
    by (simp add: echo_mixed_def transport_echo_loads)
  have a3: "get_tool_calls (reply [decision_time, decision_none, decision_retriever]) =
     Inr [JObj decision_time, JObj decision_none, JObj decision_retriever]"
    by (simp add: get_tool_calls_reply)
  have a4: "execute_decisions echo_mixed agent
     [JObj decision_time, JObj decision_none, JObj decision_retriever]
     (initial_state echo_mixed agent ''What time is it?'' 1) =
     (None,
      \<lparr>tool_results =
         [(JStr ''get_time_now'', JObj [(''time'', JStr ''2025-06-01 12:00:00'')]),
          (JStr ''retriever'', JStr ''Error: Connection failed'')],
       messages =
         [SystemMessage (generate_instruction echo_mixed agent),
          UserMessage ''What time is it?'',
          AssistantMessage ''<dict>'', AssistantMessage ''<dict>'', AssistantMessage ''<dict>''],
       calls =
         [(JStr ''get_time_now'', []),
          (JStr ''retriever'', [(''question'', JStr ''What is SAP Business Data Cloud?'')])],
       world = 3\<rparr>)"
    by (subst execute_decisions_mixed) (simp add: initial_state_def,
        simp add: echo_mixed_def transport_echo_def type_name_def)
  have b1: "orchestration_run echo_none
     (decision_config echo_none agent ''Tell me a joke.'') 0 = (Inr content_none, 1)"
    by (simp add: echo_none_def transport_echo_decision)
  have b2: "json_loads echo_none content_none = Inr (reply [decision_none])"
    by (simp add: echo_none_def transport_echo_loads)
  have b3: "get_tool_calls (reply [decision_none]) = Inr [JObj decision_none]"
    by (simp add: get_tool_calls_reply)
  have b4: "execute_decisions echo_none agent [JObj decision_none]
     (initial_state echo_none agent ''Tell me a joke.'' 1) =
     (None,
      \<lparr>tool_results = [],
       messages =
         [SystemMessage (generate_instruction echo_none agent),
          UserMessage ''Tell me a joke.'', AssistantMessage ''<dict>''],
       calls = [], world = 1\<rparr>)"
    by (simp add: process_decision_none initial_state_def)
      (simp add: echo_none_def transport_echo_def type_name_def)
  have b5: "filter wants_tool [JObj decision_none] = []"
    by (simp add: wants_tool_examples)
  have ra: "run echo_mixed agent ''What time is it?'' 0 =
     (Inr (''system: '' @ generate_instruction echo_mixed agent @ ''\<newline>'' @
           ''user: What time is it?\<newline>'' @
           ''assistant: <dict>\<newline>'' @
           ''assistant: <dict>\<newline>'' @
           ''assistant: <dict>\<newline>'' @
           ''system: '' @ synthesis_instruction @ ''\<newline>'' @
           ''user: User question: What time is it?\<newline>'' @
           ''user: Tool Results:\<newline>'' @
           ''- Tool `get_time_now` returned: <dict>\<newline>'' @
           ''- Tool `retriever` returned: <str>\<newline>''), 4)"
    using synthesis_input [OF a1 a2 a3 a4]
    by (simp add: format_value_def)
      (simp add: echo_mixed_def transport_echo_def transcript_def type_name_def)
  have rb: "run echo_none agent ''Tell me a joke.'' 0 =
     (Inr (''system: '' @ generate_instruction echo_none agent @ ''\<newline>'' @
           ''user: Tell me a joke.\<newline>'' @
           ''assistant: <dict>\<newline>'' @
           ''system: '' @ synthesis_instruction @ ''\<newline>'' @
           ''user: User question: Tell me a joke.\<newline>'' @
           ''user: Tool Results:\<newline>'' @
           ''\<newline>''), 2)"
    using synthesis_input [OF b1 b2 b3 b4]
    by (simp add: format_value_def)
      (simp add: echo_none_def transport_echo_def transcript_def type_name_def)
  show ?thesis
    using a1 a2 a3 a4 b1 b2 b3 b4 b5 ra rb by simp
qed

section \<open>Malformed decision output\<close>

text \<open>
  C3, as stated, fails: the reply \<^verbatim>\<open>{}\<close> is valid JSON that lacks the required
  \<^verbatim>\<open>tool_calls\<close>, and the run neither fails to parse it nor aborts; it returns the
  synthesised answer.
\<close>

theorem schema_violation_not_fatal:
  "json_loads transport_empty ''{}'' = Inr (JObj []) \<and>
   \<not> conforms_schema (JObj []) \<and>
   run transport_empty agent ''What time is it?'' 0 = (Inr ''It is noon.'', 2)"
  by (simp add: transport_empty_def transport_def conforms_schema_def run_def
      decision_config_def get_tool_calls_def finalize_response_def initial_state_def)

text \<open>
  C3, amended. After the transport has answered: a reply that is not valid JSON ends the
  run with the parse error; a reply that parses to anything but an object ends it with an
  \<^verbatim>\<open>AttributeError\<close>; in both cases the world is the one the single request left, so
  nothing is repaired or retried. The schema itself is not checked: an object without
  \<^verbatim>\<open>tool_calls\<close> is an empty list of decisions and the run goes on to the synthesis.
\<close>

theorem malformed_output_fatal:
  assumes "orchestration_run ext (decision_config ext self q) w = (Inr content, w1)"
  shows "(json_loads ext content = Inl e \<longrightarrow> run ext self q w = (Inl e, w1)) \<and>
         (json_loads ext content = Inr dj \<and> (\<forall>obj. dj \<noteq> JObj obj) \<longrightarrow>
            run ext self q w = (Inl (AttributeError (type_name dj) ''get''), w1)) \<and>
         (json_loads ext content = Inr (JObj obj) \<and> map_of obj ''tool_calls'' = None \<longrightarrow>
            run ext self q w =
              finalize_response ext self q []
                [SystemMessage (generate_instruction ext self), UserMessage q] w1)"
proof (intro conjI impI)
  assume "json_loads ext content = Inl e"
  with assms show "run ext self q w = (Inl e, w1)"
    by (simp add: run_def)
next
  assume a: "json_loads ext content = Inr dj \<and> (\<forall>obj. dj \<noteq> JObj obj)"
  then have "get_tool_calls dj = Inl (AttributeError (type_name dj) ''get'')"
    by (cases dj) (simp_all add: get_tool_calls_def)
  with assms a show "run ext self q w = (Inl (AttributeError (type_name dj) ''get''), w1)"
    by (simp add: run_def)
next
  assume a: "json_loads ext content = Inr (JObj obj) \<and> map_of obj ''tool_calls'' = None"
  then have "get_tool_calls (JObj obj) = Inr []"
    by (simp add: get_tool_calls_def)
  with assms a show "run ext self q w =
      finalize_response ext self q []
        [SystemMessage (generate_instruction ext self), UserMessage q] w1"
    by (simp add: run_def initial_state_def)
qed

theorem malformed_output_fatal_witness:
  "orchestration_run transport_prose
     (decision_config transport_prose agent ''What time is it?'') 0 =
     (Inr ''I will call get_time_now.'', 1) \<and>
   json_loads transport_prose ''I will call get_time_now.'' =
     Inl (JSONDecodeError ''Expecting value'') \<and>
   run transport_prose agent ''What time is it?'' 0 =
     (Inl (JSONDecodeError ''Expecting value''), 1) \<and>
   orchestration_run transport_list
     (decision_config transport_list agent ''What time is it?'') 0 = (Inr ''[]'', 1) \<and>
   json_loads transport_list ''[]'' = Inr (JArr []) \<and>
   run transport_list agent ''What time is it?'' 0 =
     (Inl (AttributeError ''list'' ''get''), 1) \<and>
   orchestration_run transport_empty
     (decision_config transport_empty agent ''What time is it?'') 0 = (Inr ''{}'', 1) \<and>
   json_loads transport_empty ''{}'' = Inr (JObj []) \<and>
   map_of ([] :: pydict) ''tool_calls'' = None \<and>
   run transport_empty agent ''What time is it?'' 0 =
     finalize_response transport_empty agent ''What time is it?'' []
       [SystemMessage (generate_instruction transport_empty agent),
        UserMessage ''What time is it?''] 1"
proof -
  have a: "orchestration_run transport_prose
     (decision_config transport_prose agent ''What time is it?'') 0 =
     (Inr ''I will call get_time_now.'', 1)"
    by (simp add: transport_prose_def transport_decision)
  have a': "json_loads transport_prose ''I will call get_time_now.'' =
     Inl (JSONDecodeError ''Expecting value'')"
    by (simp add: transport_prose_def transport_loads)
  have b: "orchestration_run transport_list
     (decision_config transport_list agent ''What time is it?'') 0 = (Inr ''[]'', 1)"
    by (simp add: transport_list_def transport_decision)
  have b': "json_loads transport_list ''[]'' = Inr (JArr [])"
    by (simp add: transport_list_def transport_loads)
  have c: "orchestration_run transport_empty
     (decision_config transport_empty agent ''What time is it?'') 0 = (Inr ''{}'', 1)"
    by (simp add: transport_empty_def transport_decision)
  have c': "json_loads transport_empty ''{}'' = Inr (JObj [])"
    by (simp add: transport_empty_def transport_loads)
  show ?thesis
    using malformed_output_fatal [OF a, where e = "JSONDecodeError ''Expecting value''"]
      malformed_output_fatal [OF b, where dj = "JArr []"]
      malformed_output_fatal [OF c, where obj = "[]"]
      a a' b b' c c'
    by (simp add: type_name_def)
qed

end
